theory Spec2Isabelle
  imports Main
begin

section \<open>Python text operations used by the program\<close>

text \<open>
  A Python \<open>str\<close> is modelled as a \<open>string\<close>, one \<open>char\<close> per character, so the
  model covers text whose code points are below 256 and \<open>length\<close> is Python's \<open>len\<close>.
  \<open>isspace\<close> lists the characters of that range that \<open>str.strip()\<close> removes.
\<close>

definition isspace :: "char \<Rightarrow> bool" where
  "isspace c \<longleftrightarrow> c \<in> set [CHR 0x09, CHR 0x0A, CHR 0x0B, CHR 0x0C, CHR 0x0D,
                       CHR 0x1C, CHR 0x1D, CHR 0x1E, CHR 0x1F, CHR 0x20, CHR 0x85, CHR 0xA0]"

definition strip :: "string \<Rightarrow> string" where
  "strip s = rev (dropWhile isspace (rev (dropWhile isspace s)))"

section \<open>Type inference\<close>

subsection \<open>The external parsers\<close>

text \<open>
  \<open>ast.literal_eval\<close> returns a value of one of the types below or raises; the program
  only looks at \<open>type(...).__name__\<close> of the result.
\<close>

datatype pytype =
  T_str | T_bytes | T_int | T_float | T_complex | T_bool | T_NoneType
  | T_tuple | T_list | T_dict | T_set

fun type_name :: "pytype \<Rightarrow> string" where
  "type_name T_str = ''str''"
| "type_name T_bytes = ''bytes''"
| "type_name T_int = ''int''"
| "type_name T_float = ''float''"
| "type_name T_complex = ''complex''"
| "type_name T_bool = ''bool''"
| "type_name T_NoneType = ''NoneType''"
| "type_name T_tuple = ''tuple''"
| "type_name T_list = ''list''"
| "type_name T_dict = ''dict''"
| "type_name T_set = ''set''"

text \<open>
  What \<open>guess_str_type\<close> calls and does not define: the builtin \<open>str\<close> on a cell,
  \<open>dateparser.parse\<close> (the parsed date as a timestamp, or \<open>None\<close>) and
  \<open>ast.literal_eval\<close> (the type of the literal, or \<open>None\<close> when it raises).
  They are parameters of the model; \<open>'c\<close> is the type of the cells of a frame.
\<close>

record 'c pyenv =
  py_str :: "'c \<Rightarrow> string"
  dateparse :: "string \<Rightarrow> int option"
  literal_eval :: "string \<Rightarrow> pytype option"

subsection \<open>\<open>choose_type_priority\<close> and \<open>guess_str_type\<close>\<close>

text \<open>A guess is a type name or Python's \<open>None\<close>.\<close>

type_synonym guess = "string option"

definition choose_type_priority :: "guess list \<Rightarrow> string" where
  "choose_type_priority types =
     (if Some ''str'' \<in> set types then ''VARCHAR(100)''
      else if Some ''float'' \<in> set types then ''DECIMAL(17,4)''
      else if Some ''int'' \<in> set types then ''INT''
      else if Some ''date'' \<in> set types then ''DATETIME''
      else ''VARCHAR(100)'')"

text \<open>The \<open>try\<close> block at the end of \<open>guess_str_type\<close>.\<close>

definition literal_guess :: "'c pyenv \<Rightarrow> string \<Rightarrow> guess" where
  "literal_guess E s =
     (case literal_eval E s of
        Some t \<Rightarrow> Some (type_name t)
      | None \<Rightarrow> Some ''str'')"

text \<open>The condition of the \<open>elif\<close>, with Python's left-to-right \<open>and\<close>.\<close>

definition date_shaped :: "'c pyenv \<Rightarrow> string \<Rightarrow> bool" where
  "date_shaped E s \<longleftrightarrow>
     (\<exists>x \<in> set [CHR ''-'', CHR ''/'']. x \<in> set s)
     \<and> length s > 7
     \<and> length s < 11
     \<and> dateparse E s \<noteq> None"

definition guess_str_type :: "'c pyenv \<Rightarrow> 'c \<Rightarrow> guess" where
  "guess_str_type E v =
     (let s = strip (py_str E v) in
      if s = ''nan'' then None
      else if date_shaped E s then Some ''date''
      else literal_guess E s)"

subsection \<open>\<open>identify_colummns_types\<close>\<close>

text \<open>
  A frame is the list of its columns in order, each a label with the cells of the column
  from the first row to the last. The model follows the library for frames whose labels
  are distinct, where \<open>df[column]\<close> is the column of that label.
  \<open>Series.drop_duplicates\<close> keeps the first occurrence of every value.
\<close>

type_synonym ('n, 'c) frame = "('n \<times> 'c list) list"

fun drop_duplicates :: "'a list \<Rightarrow> 'a list" where
  "drop_duplicates [] = []"
| "drop_duplicates (x # xs) = x # drop_duplicates (filter (\<lambda>y. y \<noteq> x) xs)"

text \<open>\<open>dataframe[:100]\<close>: the first 100 rows.\<close>

definition head_rows :: "nat \<Rightarrow> ('n, 'c) frame \<Rightarrow> ('n, 'c) frame" where
  "head_rows n dataframe = map (\<lambda>(column, cells). (column, take n cells)) dataframe"

text \<open>The list \<open>types\<close> computed in the loop body for one column.\<close>

definition column_guesses :: "'c pyenv \<Rightarrow> 'c list \<Rightarrow> guess list" where
  "column_guesses E cells = drop_duplicates (map (guess_str_type E) cells)"

definition identify_colummns_types ::
    "'c pyenv \<Rightarrow> ('n, 'c) frame \<Rightarrow> ('n \<rightharpoonup> string)" where
  "identify_colummns_types E dataframe =
     (let df_partial = head_rows 100 dataframe in
      fold (\<lambda>(column, cells) types_dict.
              types_dict(column \<mapsto> choose_type_priority (column_guesses E cells)))
           df_partial Map.empty)"

subsection \<open>A call of \<open>identify_colummns_types\<close> on the caller's frame\<close>







section \<open>Readers\<close>

subsection \<open>Python values and exceptions\<close>

text \<open>
  The values \<open>json.loads\<close> builds. A \<open>PyDict\<close> holds the items of the dict; a float is
  kept as its text, since no operation of the program computes with it.
\<close>

datatype pyobj =
  PyNone | PyBool bool | PyInt int | PyFloat string | PyStr string
  | PyList "pyobj list" | PyDict "(string \<times> pyobj) list"

text \<open>Exceptions derived from \<open>Exception\<close>; \<open>Raised\<close> carries the class name of any other one.\<close>

datatype exn = KeyError string | TypeError | ValueError | Raised string

text \<open>\<open>obj[key]\<close> for a text key: only a dict can be subscripted by one.\<close>

fun subscript :: "pyobj \<Rightarrow> string \<Rightarrow> exn + pyobj" where
  "subscript (PyDict items) key =
     (case map_of items key of None \<Rightarrow> Inl (KeyError key) | Some v \<Rightarrow> Inr v)"
| "subscript obj key = Inl TypeError"

text \<open>Iteration: a list gives its elements, a dict its keys, a text its characters.\<close>

fun py_iter :: "pyobj \<Rightarrow> exn + pyobj list" where
  "py_iter (PyList xs) = Inr xs"
| "py_iter (PyDict items) = Inr (map (\<lambda>(k, v). PyStr k) items)"
| "py_iter (PyStr s) = Inr (map (\<lambda>c. PyStr [c]) s)"
| "py_iter obj = Inl TypeError"

text \<open>\<open>list(map(f, xs))\<close> where \<open>f\<close> may raise: the first exception ends it.\<close>

fun list_map :: "('a \<Rightarrow> exn + 'b) \<Rightarrow> 'a list \<Rightarrow> exn + 'b list" where
  "list_map f [] = Inr []"
| "list_map f (x # xs) =
     (case f x of
        Inl e \<Rightarrow> Inl e
      | Inr y \<Rightarrow> (case list_map f xs of Inl e \<Rightarrow> Inl e | Inr ys \<Rightarrow> Inr (y # ys)))"

subsection \<open>The libraries behind the readers\<close>

text \<open>
  What the readers call and do not define. \<open>json_file\<close> is \<open>open\<close>, \<open>read\<close> and
  \<open>json.loads\<close> on a path; \<open>xml_frame\<close> and \<open>rdf_frame\<close> stand for the statements inside
  the \<open>try\<close> of \<open>dataframe_from_xml\<close> and \<open>dataframe_from_rfd\<close>; \<open>DataFrame_other\<close> is
  \<open>pandas.DataFrame(rows, columns=names)\<close> on the arguments \<open>DataFrame\<close> below does
  not cover.
\<close>

type_synonym pyframe = "(pyobj, pyobj) frame"

record pylib =
  json_file :: "string \<Rightarrow> exn + pyobj"
  DataFrame_other :: "pyobj \<Rightarrow> pyobj list \<Rightarrow> exn + pyframe"
  read_excel :: "string \<Rightarrow> exn + pyframe"
  read_csv :: "string \<Rightarrow> exn + pyframe"
  xml_frame :: "string \<Rightarrow> exn + pyframe"
  rdf_frame :: "string \<Rightarrow> exn + pyframe"

text \<open>
  \<open>pandas.DataFrame(rows, columns=names)\<close>. For a list of rows, each a list with one
  value per name, and text names (at least one), the frame has the names as its column
  labels in order, and column \<open>j\<close> holds the \<open>j\<close>-th value of every row, in row order.
\<close>

fun row_values :: "nat \<Rightarrow> pyobj \<Rightarrow> pyobj list option" where
  "row_values n (PyList xs) = (if length xs = n then Some xs else None)"
| "row_values n obj = None"

fun those_rows :: "nat \<Rightarrow> pyobj list \<Rightarrow> pyobj list list option" where
  "those_rows n [] = Some []"
| "those_rows n (r # rs) =
     (case row_values n r of
        None \<Rightarrow> None
      | Some xs \<Rightarrow> (case those_rows n rs of None \<Rightarrow> None | Some xss \<Rightarrow> Some (xs # xss)))"

fun is_text :: "pyobj \<Rightarrow> bool" where
  "is_text (PyStr s) = True"
| "is_text obj = False"

definition frame_of_rows :: "'n list \<Rightarrow> 'c list list \<Rightarrow> ('n, 'c) frame" where
  "frame_of_rows names rows =
     map (\<lambda>j. (names ! j, map (\<lambda>row. row ! j) rows)) [0..<length names]"

definition DataFrame :: "pylib \<Rightarrow> pyobj \<Rightarrow> pyobj list \<Rightarrow> exn + pyframe" where
  "DataFrame L rows names =
     (case rows of
        PyList rs \<Rightarrow>
          (case those_rows (length names) rs of
             Some xss \<Rightarrow>
               if names \<noteq> [] \<and> list_all is_text names
               then Inr (frame_of_rows names xss)
               else DataFrame_other L rows names
           | None \<Rightarrow> DataFrame_other L rows names)
      | _ \<Rightarrow> DataFrame_other L rows names)"

subsection \<open>\<open>dataframe_from_json\<close> and \<open>read_file\<close>\<close>

text \<open>The statements inside the \<open>try\<close> of \<open>dataframe_from_json\<close>.\<close>

definition json_columns :: "pyobj \<Rightarrow> exn + pyobj" where
  "json_columns json =
     (case subscript json ''meta'' of
        Inl e \<Rightarrow> Inl e
      | Inr meta \<Rightarrow>
          (case subscript meta ''view'' of
             Inl e \<Rightarrow> Inl e
           | Inr view \<Rightarrow> subscript view ''columns''))"

definition json_column_names :: "pyobj \<Rightarrow> exn + pyobj list" where
  "json_column_names columns =
     (case py_iter columns of
        Inl e \<Rightarrow> Inl e
      | Inr cs \<Rightarrow> list_map (\<lambda>c. subscript c ''name'') cs)"

definition json_frame :: "pylib \<Rightarrow> string \<Rightarrow> exn + pyframe" where
  "json_frame L filename =
     (case json_file L filename of
        Inl e \<Rightarrow> Inl e
      | Inr json \<Rightarrow>
          (case subscript json ''data'' of
             Inl e \<Rightarrow> Inl e
           | Inr rows \<Rightarrow>
               (case json_columns json of
                  Inl e \<Rightarrow> Inl e
                | Inr columns \<Rightarrow>
                    (case json_column_names columns of
                       Inl e \<Rightarrow> Inl e
                     | Inr column_names \<Rightarrow> DataFrame L rows column_names))))"

text \<open>\<open>try: ... return dataframe / except Exception: return None\<close>.\<close>

definition catch_all :: "exn + 'a \<Rightarrow> 'a option" where
  "catch_all body = (case body of Inl e \<Rightarrow> None | Inr x \<Rightarrow> Some x)"

definition dataframe_from_json :: "pylib \<Rightarrow> string \<Rightarrow> pyframe option" where
  "dataframe_from_json L filename = catch_all (json_frame L filename)"

definition dataframe_from_xml :: "pylib \<Rightarrow> string \<Rightarrow> pyframe option" where
  "dataframe_from_xml L filename = catch_all (xml_frame L filename)"

definition dataframe_from_rfd :: "pylib \<Rightarrow> string \<Rightarrow> pyframe option" where
  "dataframe_from_rfd L filename = catch_all (rdf_frame L filename)"

text \<open>\<open>s.rpartition(sep)[-1]\<close>: the text after the last \<open>sep\<close>, all of \<open>s\<close> without one.\<close>

definition rpartition_last :: "char \<Rightarrow> string \<Rightarrow> string" where
  "rpartition_last sep s = rev (takeWhile (\<lambda>c. c \<noteq> sep) (rev s))"

text \<open>
  \<open>read_file\<close>: \<open>Inl\<close> is an exception leaving the function, \<open>Inr None\<close> the return of
  \<open>None\<close>. The calls of \<open>read_excel\<close> and \<open>read_csv\<close> stand outside any \<open>try\<close>.
\<close>

definition read_file :: "pylib \<Rightarrow> string \<Rightarrow> exn + pyframe option" where
  "read_file L filename =
     (let file_type = rpartition_last CHR ''.'' filename in
      if file_type \<in> set [''xlsx'', ''xls''] then
        (case read_excel L filename of Inl e \<Rightarrow> Inl e | Inr df \<Rightarrow> Inr (Some df))
      else if file_type = ''csv'' then
        (case read_csv L filename of Inl e \<Rightarrow> Inl e | Inr df \<Rightarrow> Inr (Some df))
      else if file_type = ''xml'' then Inr (dataframe_from_xml L filename)
      else if file_type = ''json'' then Inr (dataframe_from_json L filename)
      else if file_type = ''rdf'' then Inr (dataframe_from_rfd L filename)
      else Inr None)"

subsection \<open>Key paths of a document\<close>


section \<open>CSV export\<close>

text \<open>
  \<open>DataFrame.to_csv(path, encoding=..., index=...)\<close> as the library documents it, up
  to the formatting of a field: with \<open>header\<close> (the default) the first line names the
  columns, then one line per row from the first to the last, each with one field per
  column from the first to the last; with \<open>index\<close> every line starts with a field for
  the row index. How a field is quoted and printed is left to the library: a line is
  kept as the list of its fields. A frame is rectangular, so the first column gives the
  number of rows.
\<close>

datatype ('n, 'c) field = Index_name | Index_value nat | Column_name 'n | Cell_value 'c

record ('n, 'c) csv_text =
  encoding :: string
  csv_lines :: "('n, 'c) field list list"

definition nrows :: "('n, 'c) frame \<Rightarrow> nat" where
  "nrows dataframe = (case dataframe of [] \<Rightarrow> 0 | (column, cells) # rest \<Rightarrow> length cells)"

definition to_csv :: "('n, 'c) frame \<Rightarrow> string \<Rightarrow> bool \<Rightarrow> bool \<Rightarrow> ('n, 'c) csv_text" where
  "to_csv dataframe enc header index =
     \<lparr>encoding = enc,
      csv_lines =
        (if header
         then [(if index then [Index_name] else [])
               @ map (\<lambda>(column, cells). Column_name column) dataframe]
         else [])
        @ map (\<lambda>i. (if index then [Index_value i] else [])
                     @ map (\<lambda>(column, cells). Cell_value (cells ! i)) dataframe)
              [0..<nrows dataframe]\<rparr>"

text \<open>\<open>export_csv\<close> writes a file: the file system maps a path to what was written.\<close>

definition export_csv ::
    "(string \<rightharpoonup> ('n, 'c) csv_text) \<Rightarrow> ('n, 'c) frame \<Rightarrow> string
      \<Rightarrow> (string \<rightharpoonup> ('n, 'c) csv_text)" where
  "export_csv fs dataframe output_name =
     fs(output_name @ ''.csv'' \<mapsto> to_csv dataframe ''utf-8'' True False)"

section \<open>Archives\<close>

definition ALLOWED_EXTS :: "string list" where
  "ALLOWED_EXTS = [''xls'', ''xlsx'', ''json'', ''xml'', ''rdf'']"

text \<open>\<open>s.split(sep)\<close> for a separator of one character: never an empty list.\<close>

fun str_split :: "char \<Rightarrow> string \<Rightarrow> string list" where
  "str_split sep [] = [[]]"
| "str_split sep (c # cs) =
     (if c = sep then [] # str_split sep cs
      else (case str_split sep cs of
              [] \<Rightarrow> [[c]]
            | part # parts \<Rightarrow> (c # part) # parts))"

text \<open>\<open>os.path.basename\<close> and \<open>os.path.join\<close> of two paths, on POSIX.\<close>

definition basename :: "string \<Rightarrow> string" where
  "basename path = rpartition_last CHR ''/'' path"

definition path_join :: "string \<Rightarrow> string \<Rightarrow> string" where
  "path_join a b =
     (if b \<noteq> [] \<and> hd b = CHR ''/'' then b
      else if a = [] \<or> last a = CHR ''/'' then a @ b
      else a @ ''/'' @ b)"

text \<open>
  \<open>base.split('.')[:1] + base.split('.')[-1:]\<close>, which the callers unpack into two
  names: the first and the last part (\<open>str_split\<close> gives at least one part).
\<close>

definition filename_and_ext :: "string \<Rightarrow> string \<times> string" where
  "filename_and_ext filename =
     (let parts = str_split CHR ''.'' (basename filename)
      in (hd parts, last parts))"

text \<open>
  \<open>process_zip\<close> on an archive that opens, given \<open>f_zip.namelist()\<close>: the calls it
  makes, in order. \<open>Extract f d\<close> is \<open>f_zip.extract(f, d)\<close> and \<open>Process_file t p\<close> is
  \<open>process_file(t, p)\<close>.
\<close>

datatype call = Extract string string | Process_file string string

definition process_zip :: "string \<Rightarrow> string \<Rightarrow> string list \<Rightarrow> call list" where
  "process_zip title filename namelist =
     (let dwn_dest = path_join title ''download'';
          (z_name, z_ext) = filename_and_ext filename
      in concat (map (\<lambda>f_name.
           (let (b_name, b_ext) = filename_and_ext f_name
            in if b_ext \<in> set ALLOWED_EXTS
               then [Extract f_name (path_join dwn_dest z_name),
                     Process_file title (path_join (path_join dwn_dest z_name) f_name)]
               else [])) namelist))"

text \<open>The path \<open>process_file(title, filename)\<close> hands to \<open>read_file\<close>.\<close>

definition process_file_reads :: "string \<Rightarrow> string \<Rightarrow> string" where
  "process_file_reads title filename = path_join (path_join title ''download'') filename"

section \<open>Sample libraries\<close>

text \<open>
  Instances of the parameters, for evaluating the model on examples. \<open>sample_env\<close>
  has text cells (\<open>str\<close> of a text is the text) and answers as the parsers do on the
  texts listed; on every other text its \<open>literal_eval\<close> raises and its \<open>dateparse\<close>
  finds no date, as the parsers do on \<open>x\<close>. It is not a model of the parsers.
\<close>

definition sample_env :: "string pyenv" where
  "sample_env =
     \<lparr>py_str = (\<lambda>s. s),
      dateparse = map_of [(''2020-01-01'', 1577836800), (''1/1/20'', 1577836800),
                          (''2020-01-01 10:30'', 1577874600)],
      literal_eval = map_of [(''1'', T_int), (''2'', T_int), (''2.5'', T_float),
                             (''True'', T_bool)]\<rparr>"



section \<open>Properties of the type inference\<close>

subsection \<open>Auxiliary facts\<close>

lemma set_drop_duplicates: "set (drop_duplicates xs) = set xs"
  by (induction xs rule: drop_duplicates.induct) auto

lemma distinct_drop_duplicates: "distinct (drop_duplicates xs)"
  by (induction xs rule: drop_duplicates.induct) (auto simp: set_drop_duplicates)

lemma type_name_not_date: "type_name t \<noteq> ''date''"
  by (cases t) simp_all

lemma literal_guess_not_date: "literal_guess E s \<noteq> Some ''date''"
  by (simp add: literal_guess_def type_name_not_date split: option.split)

lemma literal_guess_not_None: "literal_guess E s \<noteq> None"
  by (simp add: literal_guess_def split: option.split)

lemma date_shaped_not_nan: "\<not> date_shaped E ''nan''"
  by (simp add: date_shaped_def)

lemma choose_type_priority_set:
  "set xs = set ys \<Longrightarrow> choose_type_priority xs = choose_type_priority ys"
  by (simp add: choose_type_priority_def)

lemma fold_update_other:
  "k \<notin> fst ` set xs \<Longrightarrow> fold (\<lambda>(c, v) m. m(c \<mapsto> f v)) xs m k = m k"
  by (induction xs arbitrary: m) (auto split: prod.splits)

lemma fold_update_distinct:
  "distinct (map fst xs) \<Longrightarrow> (k, v) \<in> set xs \<Longrightarrow>
   fold (\<lambda>(c, v) m. m(c \<mapsto> f v)) xs m k = Some (f v)"
proof (induction xs arbitrary: m)
  case Nil
  then show ?case by simp
next
  case (Cons a xs)
  show ?case
  proof (cases "a = (k, v)")
    case True
    with Cons.prems have "k \<notin> fst ` set xs" by auto
    from fold_update_other [OF this, of f "m(k \<mapsto> f v)"]
    have "fold (\<lambda>(c, v) m. m(c \<mapsto> f v)) xs (m(k \<mapsto> f v)) k = Some (f v)"
      by simp
    then show ?thesis using True by (simp del: fun_upd_apply)
  next
    case False
    with Cons.prems have "(k, v) \<in> set xs" "distinct (map fst xs)" by auto
    then show ?thesis using Cons.IH by simp
  qed
qed

lemma dom_fold_update:
  "dom (fold (\<lambda>(c, v) m. m(c \<mapsto> f v)) xs m) = dom m \<union> fst ` set xs"
  by (induction xs arbitrary: m) (auto split: prod.splits)

lemma fold_update_value:
  "fold (\<lambda>(c, v) m. m(c \<mapsto> f v)) xs m k = Some y \<Longrightarrow>
   m k = Some y \<or> y \<in> f ` snd ` set xs"
proof (induction xs arbitrary: m)
  case Nil
  then show ?case by simp
next
  case (Cons a xs)
  obtain c v where a: "a = (c, v)" by (cases a)
  from Cons.prems have "fold (\<lambda>(c, v) m. m(c \<mapsto> f v)) xs (m(c \<mapsto> f v)) k = Some y"
    by (simp add: a del: fun_upd_apply)
  from Cons.IH [OF this] show ?case
    by (auto simp: a split: if_splits)
qed

lemma fst_head_rows: "fst ` set (head_rows n df) = fst ` set df"
  by (force simp: head_rows_def)

lemma map_fst_head_rows: "map fst (head_rows n df) = map fst df"
  by (simp add: head_rows_def case_prod_beta)

lemma in_head_rows: "(c, cells) \<in> set df \<Longrightarrow> (c, take n cells) \<in> set (head_rows n df)"
  by (force simp: head_rows_def)

lemma identify_column:
  assumes "distinct (map fst df)" and "(c, cells) \<in> set df"
  shows "identify_colummns_types E df c =
           Some (choose_type_priority (column_guesses E (take 100 cells)))"
  unfolding identify_colummns_types_def Let_def
  by (rule fold_update_distinct) (simp_all add: assms map_fst_head_rows in_head_rows)

lemma strip_examples:
  "strip ''1'' = ''1''" "strip ''2'' = ''2''" "strip ''2.5'' = ''2.5''" "strip ''x'' = ''x''"
  "strip ''nan'' = ''nan''" "strip ''2020-01-01'' = ''2020-01-01''" "strip '' nan '' = ''nan''"
  "strip ''True'' = ''True''"
  by (simp_all add: strip_def isspace_def)

lemma resolve_column:
  "choose_type_priority (column_guesses E cells) =
     (let G = set (map (guess_str_type E) cells) in
      if Some ''str'' \<in> G then ''VARCHAR(100)''
      else if Some ''float'' \<in> G then ''DECIMAL(17,4)''
      else if Some ''int'' \<in> G then ''INT''
      else if Some ''date'' \<in> G then ''DATETIME''
      else ''VARCHAR(100)'')"
  by (simp only: choose_type_priority_def column_guesses_def set_drop_duplicates Let_def)

lemma identify_single:
  "identify_colummns_types E [(c, cells)] c =
     Some (choose_type_priority (column_guesses E (take 100 cells)))"
  by (rule identify_column) simp_all

text \<open>
  C1: for every column of a frame with distinct labels, the resolved type is chosen by
  the fixed priority string, float, integer, date among the guesses of the sampled
  cells, whatever their number: it depends on the set of guesses only. Columns holding
  the texts 1, 2.5, x resolve to VARCHAR(100), the texts 1, 2 to INT and the texts
  1, 2.5 to DECIMAL(17,4), given what the literal parser answers on these texts.
\<close>

theorem priority_resolution:
  "(distinct (map fst dataframe) \<and> (column, cells) \<in> set dataframe \<longrightarrow>
      identify_colummns_types E dataframe column =
        Some (let G = set (map (guess_str_type E) (take 100 cells)) in
              if Some ''str'' \<in> G then ''VARCHAR(100)''
              else if Some ''float'' \<in> G then ''DECIMAL(17,4)''
              else if Some ''int'' \<in> G then ''INT''
              else if Some ''date'' \<in> G then ''DATETIME''
              else ''VARCHAR(100)''))
   \<and> (py_str E one = ''1'' \<and> py_str E two = ''2'' \<and> py_str E half = ''2.5''
        \<and> py_str E ex = ''x''
        \<and> literal_eval E ''1'' = Some T_int \<and> literal_eval E ''2'' = Some T_int
        \<and> literal_eval E ''2.5'' = Some T_float \<and> literal_eval E ''x'' = None \<longrightarrow>
      identify_colummns_types E [(c, [one, half, ex])] c = Some ''VARCHAR(100)''
      \<and> identify_colummns_types E [(c, [one, two])] c = Some ''INT''
      \<and> identify_colummns_types E [(c, [one, half])] c = Some ''DECIMAL(17,4)'')"
proof (intro conjI impI)
  assume "distinct (map fst dataframe) \<and> (column, cells) \<in> set dataframe"
  then have "identify_colummns_types E dataframe column =
      Some (choose_type_priority (column_guesses E (take 100 cells)))"
    by (simp add: identify_column)
  then show "identify_colummns_types E dataframe column =
        Some (let G = set (map (guess_str_type E) (take 100 cells)) in
              if Some ''str'' \<in> G then ''VARCHAR(100)''
              else if Some ''float'' \<in> G then ''DECIMAL(17,4)''
              else if Some ''int'' \<in> G then ''INT''
              else if Some ''date'' \<in> G then ''DATETIME''
              else ''VARCHAR(100)'')"
    by (simp only: identify_column resolve_column)
next
  assume h: "py_str E one = ''1'' \<and> py_str E two = ''2'' \<and> py_str E half = ''2.5''
        \<and> py_str E ex = ''x''
        \<and> literal_eval E ''1'' = Some T_int \<and> literal_eval E ''2'' = Some T_int
        \<and> literal_eval E ''2.5'' = Some T_float \<and> literal_eval E ''x'' = None"
  have g1: "guess_str_type E one = Some ''int''"
    using h by (simp add: guess_str_type_def strip_examples date_shaped_def literal_guess_def)
  have g2: "guess_str_type E two = Some ''int''"
    using h by (simp add: guess_str_type_def strip_examples date_shaped_def literal_guess_def)
  have g3: "guess_str_type E half = Some ''float''"
    using h by (simp add: guess_str_type_def strip_examples date_shaped_def literal_guess_def)
  have g4: "guess_str_type E ex = Some ''str''"
    using h by (simp add: guess_str_type_def strip_examples date_shaped_def literal_guess_def)
  show "identify_colummns_types E [(c, [one, half, ex])] c = Some ''VARCHAR(100)''"
    by (simp add: identify_single resolve_column g1 g3 g4)
  show "identify_colummns_types E [(c, [one, two])] c = Some ''INT''"
    by (simp add: identify_single resolve_column g1 g2)
  show "identify_colummns_types E [(c, [one, half])] c = Some ''DECIMAL(17,4)''"
    by (simp add: identify_single resolve_column g1 g3)
qed

lemma sample_guesses:
  "guess_str_type sample_env ''1'' = Some ''int''"
  "guess_str_type sample_env ''2'' = Some ''int''"
  "guess_str_type sample_env ''2.5'' = Some ''float''"
  "guess_str_type sample_env ''x'' = Some ''str''"
  "guess_str_type sample_env ''True'' = Some ''bool''"
  "guess_str_type sample_env ''nan'' = None"
  "guess_str_type sample_env ''2020-01-01'' = Some ''date''"
  by (simp_all add: guess_str_type_def sample_env_def strip_examples date_shaped_def
        literal_guess_def)

theorem priority_resolution_witness:
  "identify_colummns_types sample_env
      [(''id'', [''1'', ''2'']), (''day'', [''2020-01-01'', ''nan''])] ''day'' = Some ''DATETIME''
   \<and> identify_colummns_types sample_env [(''a'', [''1'', ''2.5'', ''x''])] ''a''
       = Some ''VARCHAR(100)''
   \<and> identify_colummns_types sample_env [(''a'', [''1'', ''2''])] ''a'' = Some ''INT''
   \<and> identify_colummns_types sample_env [(''a'', [''1'', ''2.5''])] ''a''
       = Some ''DECIMAL(17,4)''"
  using priority_resolution [of "[(''id'', [''1'', ''2'']), (''day'', [''2020-01-01'', ''nan''])]"
      "''day''" "[''2020-01-01'', ''nan'']" sample_env "''1''" "''2''" "''2.5''" "''x''" "''a''"]
  by (simp add: sample_guesses) (simp add: sample_env_def)

lemma guess_None_iff: "guess_str_type E v = None \<longleftrightarrow> strip (py_str E v) = ''nan''"
  using literal_guess_not_None [of E "strip (py_str E v)"]
  by (auto simp: guess_str_type_def Let_def)

lemma guess_date_iff:
  "guess_str_type E v = Some ''date'' \<longleftrightarrow>
     strip (py_str E v) \<noteq> ''nan'' \<and> date_shaped E (strip (py_str E v))"
  by (simp add: guess_str_type_def Let_def literal_guess_not_date)

lemma choose_type_priority_range:
  "choose_type_priority types \<in> {''VARCHAR(100)'', ''DECIMAL(17,4)'', ''INT'', ''DATETIME''}"
  by (simp add: choose_type_priority_def)

lemma identify_head_rows:
  "identify_colummns_types E (head_rows 100 df) = identify_colummns_types E df"
proof -
  have "head_rows 100 (head_rows 100 df) = head_rows 100 df"
    by (induction df) (auto simp: head_rows_def)
  then show ?thesis by (simp add: identify_colummns_types_def)
qed

text \<open>
  C6: a cell whose trimmed text is the missing marker \<open>nan\<close> gets no guess
  (\<open>None\<close>), and a column whose sampled cells are all missing resolves to the
  default VARCHAR(100).
\<close>

theorem missing_marker:
  "(strip (py_str E v) = ''nan'' \<longrightarrow> guess_str_type E v = None)
   \<and> (distinct (map fst dataframe) \<and> (column, cells) \<in> set dataframe
        \<and> (\<forall>x \<in> set (take 100 cells). strip (py_str E x) = ''nan'') \<longrightarrow>
      identify_colummns_types E dataframe column = Some ''VARCHAR(100)'')"
proof (intro conjI impI)
  assume "strip (py_str E v) = ''nan''"
  then show "guess_str_type E v = None" by (simp add: guess_None_iff)
next
  assume h: "distinct (map fst dataframe) \<and> (column, cells) \<in> set dataframe
        \<and> (\<forall>x \<in> set (take 100 cells). strip (py_str E x) = ''nan'')"
  then have "\<forall>x \<in> set (take 100 cells). guess_str_type E x = None"
    by (simp add: guess_None_iff)
  then have "set (map (guess_str_type E) (take 100 cells)) \<subseteq> {None}"
    by auto
  then have "choose_type_priority (column_guesses E (take 100 cells)) = ''VARCHAR(100)''"
    unfolding resolve_column Let_def by auto
  moreover from h have "identify_colummns_types E dataframe column =
      Some (choose_type_priority (column_guesses E (take 100 cells)))"
    by (simp add: identify_column)
  ultimately show "identify_colummns_types E dataframe column = Some ''VARCHAR(100)''"
    by simp
qed

theorem missing_marker_witness:
  "guess_str_type sample_env '' nan '' = None
   \<and> identify_colummns_types sample_env [(''a'', [''1'']), (''b'', [''nan'', ''nan''])] ''b''
       = Some ''VARCHAR(100)''"
  using missing_marker [of sample_env "'' nan ''" "[(''a'', [''1'']), (''b'', [''nan'', ''nan''])]"
      "''b''" "[''nan'', ''nan'']"]
  by (simp add: strip_examples) (simp add: sample_env_def strip_examples)

text \<open>
  C10: the dict returned by the inference has the column labels of the frame as its
  keys, every value in it is one of VARCHAR(100), DECIMAL(17,4), INT and DATETIME, and
  the chooser answers on every list of guesses: a list holding none of the four
  recognised names, such as one of \<open>bool\<close> or \<open>tuple\<close> guesses, resolves to
  VARCHAR(100).
\<close>

theorem identify_total:
  "dom (identify_colummns_types E dataframe) = set (map fst dataframe)
   \<and> ran (identify_colummns_types E dataframe)
        \<subseteq> {''VARCHAR(100)'', ''DECIMAL(17,4)'', ''INT'', ''DATETIME''}
   \<and> choose_type_priority types \<in> {''VARCHAR(100)'', ''DECIMAL(17,4)'', ''INT'', ''DATETIME''}
   \<and> (Some ''str'' \<notin> set types \<and> Some ''float'' \<notin> set types \<and> Some ''int'' \<notin> set types
        \<and> Some ''date'' \<notin> set types \<longrightarrow> choose_type_priority types = ''VARCHAR(100)'')"
proof (intro conjI impI)
  show "dom (identify_colummns_types E dataframe) = set (map fst dataframe)"
    by (simp add: identify_colummns_types_def dom_fold_update fst_head_rows)
  show "ran (identify_colummns_types E dataframe)
        \<subseteq> {''VARCHAR(100)'', ''DECIMAL(17,4)'', ''INT'', ''DATETIME''}"
  proof
    fix y assume "y \<in> ran (identify_colummns_types E dataframe)"
    then obtain k where "identify_colummns_types E dataframe k = Some y"
      by (auto simp: ran_def)
    then have "y \<in> (\<lambda>cells. choose_type_priority (column_guesses E cells))
                     ` snd ` set (head_rows 100 dataframe)"
      unfolding identify_colummns_types_def Let_def
      by (auto dest: fold_update_value)
    then show "y \<in> {''VARCHAR(100)'', ''DECIMAL(17,4)'', ''INT'', ''DATETIME''}"
      using choose_type_priority_range by blast
  qed
  show "choose_type_priority types \<in> {''VARCHAR(100)'', ''DECIMAL(17,4)'', ''INT'', ''DATETIME''}"
    by (rule choose_type_priority_range)
next
  assume "Some ''str'' \<notin> set types \<and> Some ''float'' \<notin> set types \<and> Some ''int'' \<notin> set types
        \<and> Some ''date'' \<notin> set types"
  then show "choose_type_priority types = ''VARCHAR(100)''"
    by (simp add: choose_type_priority_def)
qed

theorem identify_total_witness:
  "dom (identify_colummns_types sample_env [(''flag'', [''True'']), (''n'', [''1''])])
     = {''flag'', ''n''}
   \<and> choose_type_priority [Some ''bool'', None, Some ''tuple''] = ''VARCHAR(100)''
   \<and> identify_colummns_types sample_env [(''flag'', [''True'']), (''n'', [''1''])] ''flag''
       = Some ''VARCHAR(100)''"
  using identify_total [of sample_env "[(''flag'', [''True'']), (''n'', [''1''])]"
      "[Some ''bool'', None, Some ''tuple'']"]
    identify_column [of "[(''flag'', [''True'']), (''n'', [''1''])]" "''flag''" "[''True'']" sample_env]
  by (simp add: resolve_column sample_guesses)

text \<open>
  C5: the inference looks at the first 100 rows only: it gives the same dict on a
  frame and on its first 100 rows, so two frames with the same labels and the same
  first 100 cells in every column get the same dict; a column whose first 100 cells
  all guess \<open>int\<close> resolves to INT whatever follows them.
\<close>

theorem sample_first_100:
  "identify_colummns_types E (head_rows 100 dataframe) = identify_colummns_types E dataframe
   \<and> (map fst dataframe = map fst other
        \<and> (\<forall>j < length dataframe. take 100 (snd (dataframe ! j)) = take 100 (snd (other ! j)))
        \<longrightarrow> identify_colummns_types E dataframe = identify_colummns_types E other)
   \<and> (length ints = 100 \<and> (\<forall>x \<in> set ints. guess_str_type E x = Some ''int'') \<longrightarrow>
        identify_colummns_types E [(c, ints @ later)] c = Some ''INT'')"
proof (intro conjI impI)
  show "identify_colummns_types E (head_rows 100 dataframe) = identify_colummns_types E dataframe"
    by (simp add: identify_head_rows)
next
  assume h: "map fst dataframe = map fst other
        \<and> (\<forall>j < length dataframe. take 100 (snd (dataframe ! j)) = take 100 (snd (other ! j)))"
  then have len: "length dataframe = length other"
    by (metis length_map)
  have "head_rows 100 dataframe = head_rows 100 other"
  proof (rule nth_equalityI)
    show "length (head_rows 100 dataframe) = length (head_rows 100 other)"
      by (simp add: head_rows_def len)
  next
    fix j assume "j < length (head_rows 100 dataframe)"
    then have j: "j < length dataframe" by (simp add: head_rows_def)
    with h have "fst (dataframe ! j) = fst (other ! j)"
      by (metis len nth_map)
    moreover from h j have "take 100 (snd (dataframe ! j)) = take 100 (snd (other ! j))"
      by simp
    ultimately show "head_rows 100 dataframe ! j = head_rows 100 other ! j"
      using j len by (simp add: head_rows_def case_prod_beta)
  qed
  then show "identify_colummns_types E dataframe = identify_colummns_types E other"
    by (metis identify_head_rows)
next
  assume h: "length ints = 100 \<and> (\<forall>x \<in> set ints. guess_str_type E x = Some ''int'')"
  then have "ints \<noteq> []" by auto
  with h have "set (map (guess_str_type E) ints) = {Some ''int''}"
    by (cases ints) auto
  with h show "identify_colummns_types E [(c, ints @ later)] c = Some ''INT''"
    by (simp add: identify_single resolve_column)
qed

theorem sample_first_100_witness:
  "identify_colummns_types sample_env [(''n'', replicate 100 ''1'' @ [''x''])] ''n'' = Some ''INT''
   \<and> identify_colummns_types sample_env [(''n'', replicate 100 ''1'' @ [''x''])]
       = identify_colummns_types sample_env [(''n'', replicate 100 ''1'' @ [''2.5''])]"
proof -
  let ?df = "[(''n'', replicate 100 ''1'' @ [''x''])]"
  let ?other = "[(''n'', replicate 100 ''1'' @ [''2.5''])]"
  have same: "map fst ?df = map fst ?other
      \<and> (\<forall>j < length ?df. take 100 (snd (?df ! j)) = take 100 (snd (?other ! j)))"
    by simp
  have ints: "length (replicate 100 ''1'') = 100
      \<and> (\<forall>x \<in> set (replicate 100 ''1''). guess_str_type sample_env x = Some ''int'')"
    by (simp add: sample_guesses)
  from sample_first_100 [of sample_env ?df ?other "replicate 100 ''1''" "''n''" "[''x'']"]
    same ints
  show ?thesis by blast
qed

subsection \<open>Two calls on the same frame\<close>











section \<open>Properties of the date guess\<close>

lemma strip_more:
  "strip ''1/1/20'' = ''1/1/20''" "strip ''2020-01-01 10:30'' = ''2020-01-01 10:30''"
  by (simp_all add: strip_def isspace_def)

text \<open>
  C2 as stated fails at the missing marker: the text \<open>nan\<close> has three characters, yet
  it does not reach the literal parsing (which would answer \<open>str\<close>, since the
  literal parser raises on it) but returns no guess.
\<close>

theorem nan_skips_literal_parsing:
  "length (strip (py_str sample_env ''nan'')) \<le> 7
   \<and> guess_str_type sample_env ''nan'' = None
   \<and> literal_guess sample_env (strip (py_str sample_env ''nan'')) = Some ''str''"
  by (simp add: sample_guesses) (simp add: sample_env_def strip_examples literal_guess_def)

text \<open>
  C2, amended: the guess is \<open>date\<close> exactly when the trimmed text contains \<open>-\<close> or
  \<open>/\<close>, has more than 7 and fewer than 11 characters and the date parser succeeds
  on it. A trimmed text of 7 characters or fewer, or of 11 or more, is never guessed
  \<open>date\<close>, whatever the date parser says; unless it is the missing marker \<open>nan\<close>,
  which gets no guess, its guess is the type name the literal parser finds, and
  \<open>str\<close> when that parser raises.
\<close>

theorem date_guess:
  "s = strip (py_str E v) \<Longrightarrow>
   (guess_str_type E v = Some ''date'' \<longleftrightarrow>
      (CHR ''-'' \<in> set s \<or> CHR ''/'' \<in> set s) \<and> 7 < length s \<and> length s < 11
      \<and> dateparse E s \<noteq> None)
   \<and> (length s \<le> 7 \<or> 11 \<le> length s \<longrightarrow> guess_str_type E v \<noteq> Some ''date'')
   \<and> ((length s \<le> 7 \<or> 11 \<le> length s) \<and> s \<noteq> ''nan'' \<longrightarrow>
        guess_str_type E v =
          (case literal_eval E s of Some t \<Rightarrow> Some (type_name t) | None \<Rightarrow> Some ''str''))
   \<and> (s = ''nan'' \<longrightarrow> guess_str_type E v = None)"
proof -
  assume s: "s = strip (py_str E v)"
  have shaped: "date_shaped E s \<longleftrightarrow>
      (CHR ''-'' \<in> set s \<or> CHR ''/'' \<in> set s) \<and> 7 < length s \<and> length s < 11
      \<and> dateparse E s \<noteq> None"
    by (auto simp: date_shaped_def)
  have nan: "\<not> date_shaped E ''nan''" by (rule date_shaped_not_nan)
  have a: "guess_str_type E v = Some ''date'' \<longleftrightarrow>
      (CHR ''-'' \<in> set s \<or> CHR ''/'' \<in> set s) \<and> 7 < length s \<and> length s < 11
      \<and> dateparse E s \<noteq> None"
    unfolding guess_date_iff s [symmetric] using shaped nan by auto
  have b: "length s \<le> 7 \<or> 11 \<le> length s \<longrightarrow> guess_str_type E v \<noteq> Some ''date''"
    using a by auto
  have c: "(length s \<le> 7 \<or> 11 \<le> length s) \<and> s \<noteq> ''nan'' \<longrightarrow>
        guess_str_type E v =
          (case literal_eval E s of Some t \<Rightarrow> Some (type_name t) | None \<Rightarrow> Some ''str'')"
    using shaped by (auto simp: guess_str_type_def s [symmetric] literal_guess_def)
  have d: "s = ''nan'' \<longrightarrow> guess_str_type E v = None"
    by (simp add: guess_None_iff s)
  from a b c d show ?thesis by blast
qed

theorem date_guess_witness:
  "guess_str_type sample_env ''2020-01-01'' = Some ''date''
   \<and> guess_str_type sample_env ''1/1/20'' = Some ''str''
   \<and> guess_str_type sample_env ''2020-01-01 10:30'' = Some ''str''
   \<and> dateparse sample_env ''1/1/20'' \<noteq> None
   \<and> dateparse sample_env ''2020-01-01 10:30'' \<noteq> None"
  using date_guess [of "''2020-01-01''" sample_env "''2020-01-01''"]
    date_guess [of "''1/1/20''" sample_env "''1/1/20''"]
    date_guess [of "''2020-01-01 10:30''" sample_env "''2020-01-01 10:30''"]
  by (simp add: sample_env_def strip_examples strip_more)

section \<open>Properties of the readers\<close>



















section \<open>Properties of the CSV export\<close>

text \<open>
  C8: for a frame (every column as long as the number of rows), \<open>export_csv\<close> writes
  at \<open>output_name + '.csv'\<close> a text in UTF-8 whose first line names the columns in
  the frame's order and whose following lines are the rows in the frame's order, each
  with the cells in column order; no line holds a field for the row index.
\<close>

theorem export_csv_layout:
  "(\<forall>col \<in> set dataframe. length (snd col) = nrows dataframe) \<longrightarrow>
   (\<exists>out. export_csv fs dataframe output_name (output_name @ ''.csv'') = Some out
      \<and> encoding out = ''utf-8''
      \<and> csv_lines out =
           map Column_name (map fst dataframe)
           # map (\<lambda>i. map (\<lambda>col. Cell_value (snd col ! i)) dataframe) [0..<nrows dataframe]
      \<and> length (csv_lines out) = Suc (nrows dataframe)
      \<and> (\<forall>line \<in> set (csv_lines out).
            length line = length dataframe
            \<and> Index_name \<notin> set line \<and> (\<forall>i. Index_value i \<notin> set line)))"
proof
  assume "\<forall>col \<in> set dataframe. length (snd col) = nrows dataframe"
  let ?out = "to_csv dataframe ''utf-8'' True False"
  have lines: "csv_lines ?out =
           map Column_name (map fst dataframe)
           # map (\<lambda>i. map (\<lambda>col. Cell_value (snd col ! i)) dataframe) [0..<nrows dataframe]"
    by (simp add: to_csv_def case_prod_beta comp_def)
  have "export_csv fs dataframe output_name (output_name @ ''.csv'') = Some ?out"
    by (simp add: export_csv_def)
  moreover have "encoding ?out = ''utf-8''"
    by (simp add: to_csv_def)
  moreover have "length (csv_lines ?out) = Suc (nrows dataframe)"
    by (simp add: lines)
  moreover have "\<forall>line \<in> set (csv_lines ?out).
            length line = length dataframe
            \<and> Index_name \<notin> set line \<and> (\<forall>i. Index_value i \<notin> set line)"
    unfolding lines by auto
  ultimately show "\<exists>out. export_csv fs dataframe output_name (output_name @ ''.csv'') = Some out
      \<and> encoding out = ''utf-8''
      \<and> csv_lines out =
           map Column_name (map fst dataframe)
           # map (\<lambda>i. map (\<lambda>col. Cell_value (snd col ! i)) dataframe) [0..<nrows dataframe]
      \<and> length (csv_lines out) = Suc (nrows dataframe)
      \<and> (\<forall>line \<in> set (csv_lines out).
            length line = length dataframe
            \<and> Index_name \<notin> set line \<and> (\<forall>i. Index_value i \<notin> set line))"
    using lines by blast
qed

theorem export_csv_layout_witness:
  "(\<exists>out. export_csv Map.empty [(''city'', [''Lima'', ''Oslo'']), (''count'', [''3'', ''5''])]
             ''out/cities'' ''out/cities.csv'' = Some out
      \<and> encoding out = ''utf-8''
      \<and> csv_lines out =
           [[Column_name ''city'', Column_name ''count''],
            [Cell_value ''Lima'', Cell_value ''3''],
            [Cell_value ''Oslo'', Cell_value ''5'']])"
proof -
  let ?df = "[(''city'', [''Lima'', ''Oslo'']), (''count'', [''3'', ''5''])]"
  have rect: "\<forall>col \<in> set ?df. length (snd col) = nrows ?df"
    by (simp add: nrows_def)
  have n: "[0..<nrows ?df] = [0, 1]"
    by (simp add: nrows_def upt_rec)
  from export_csv_layout [of ?df Map.empty "''out/cities''"] rect
  obtain out where out: "export_csv Map.empty ?df ''out/cities'' (''out/cities'' @ ''.csv'') = Some out"
    "encoding out = ''utf-8''"
    "csv_lines out = map Column_name (map fst ?df)
           # map (\<lambda>i. map (\<lambda>col. Cell_value (snd col ! i)) ?df) [0..<nrows ?df]"
    by blast
  from out(3) have "csv_lines out =
           [[Column_name ''city'', Column_name ''count''],
            [Cell_value ''Lima'', Cell_value ''3''],
            [Cell_value ''Oslo'', Cell_value ''5'']]"
    unfolding n by simp
  with out(1,2) show ?thesis by auto
qed

section \<open>Exceptions leaving \<open>read_file\<close>\<close>

text \<open>
  C3 fails on the code: when \<open>read_csv\<close> or \<open>read_excel\<close> raises on a malformed
  file, \<open>read_file\<close> lets the exception through, while the XML, JSON and RDF readers
  turn theirs into \<open>None\<close>.
\<close>

theorem read_file_raises:
  "read_file (L\<lparr>read_csv := (\<lambda>f. Inl e)\<rparr>) ''data.csv'' = Inl e
   \<and> read_file (L\<lparr>read_excel := (\<lambda>f. Inl e)\<rparr>) ''data.xlsx'' = Inl e
   \<and> read_file (L\<lparr>read_excel := (\<lambda>f. Inl e)\<rparr>) ''data.xls'' = Inl e
   \<and> read_file (L\<lparr>xml_frame := (\<lambda>f. Inl e)\<rparr>) ''data.xml'' = Inr None
   \<and> read_file (L\<lparr>json_file := (\<lambda>f. Inl e)\<rparr>) ''data.json'' = Inr None
   \<and> read_file (L\<lparr>rdf_frame := (\<lambda>f. Inl e)\<rparr>) ''data.rdf'' = Inr None"
  by (simp add: read_file_def rpartition_last_def dataframe_from_xml_def
      dataframe_from_json_def dataframe_from_rfd_def catch_all_def json_frame_def)

lemma read_file_Inl_iff:
  "read_file L filename = Inl e \<longleftrightarrow>
     (rpartition_last CHR ''.'' filename \<in> {''xlsx'', ''xls''} \<and> read_excel L filename = Inl e)
     \<or> (rpartition_last CHR ''.'' filename = ''csv'' \<and> read_csv L filename = Inl e)"
  by (auto simp: read_file_def Let_def split: sum.splits)

section \<open>Properties of the archive loop\<close>

lemma filename_and_ext_examples:
  "filename_and_ext ''bundle.zip'' = (''bundle'', ''zip'')"
  "filename_and_ext ''data.csv'' = (''data'', ''csv'')"
  "filename_and_ext ''data.json'' = (''data'', ''json'')"
  "filename_and_ext ''notes.txt'' = (''notes'', ''txt'')"
  by (simp_all add: filename_and_ext_def basename_def rpartition_last_def)

text \<open>
  C4 fails on the code: \<open>ALLOWED_EXTS\<close> does not list \<open>csv\<close>, so a \<open>csv\<close> entry of an
  archive is neither extracted nor processed, although \<open>read_file\<close> reads a \<open>csv\<close>
  file handed to it directly. Entries with other extensions outside the list are
  skipped and the loop goes on to the next entry. The path handed to \<open>process_file\<close>
  already starts with the download folder, which \<open>process_file\<close> prepends once more.
\<close>

theorem process_zip_skips_csv:
  "process_zip ''Trees'' ''bundle.zip'' [''data.csv''] = []
   \<and> ''csv'' \<notin> set ALLOWED_EXTS
   \<and> process_zip ''Trees'' ''bundle.zip'' [''data.csv'', ''notes.txt'', ''data.json'']
       = [Extract ''data.json'' ''Trees/download/bundle'',
          Process_file ''Trees'' ''Trees/download/bundle/data.json'']
   \<and> process_file_reads ''Trees'' ''Trees/download/bundle/data.json''
       = ''Trees/download/Trees/download/bundle/data.json''
   \<and> read_file (L\<lparr>read_csv := (\<lambda>f. Inr df)\<rparr>) ''data.csv'' = Inr (Some df)"
  by (simp add: process_zip_def filename_and_ext_examples ALLOWED_EXTS_def path_join_def
      process_file_reads_def read_file_def rpartition_last_def)

lemma str_split_not_Nil: "str_split sep s \<noteq> []"
  by (induction s) (auto split: list.splits)

lemma process_zip_append:
  "process_zip title filename (xs @ ys)
     = process_zip title filename xs @ process_zip title filename ys"
  by (simp add: process_zip_def Let_def case_prod_beta)

lemma process_zip_entry:
  "process_zip title filename [f] =
     (if snd (filename_and_ext f) \<in> set ALLOWED_EXTS
      then [Extract f (path_join (path_join title ''download'') (fst (filename_and_ext filename))),
            Process_file title
              (path_join (path_join (path_join title ''download'')
                 (fst (filename_and_ext filename))) f)]
      else [])"
  by (simp add: process_zip_def Let_def case_prod_beta)

end
